theory Spec2Isabelle
  imports Complex_Main
begin

section \<open>Python values\<close>

text \<open>
  The factory of \<^verbatim>\<open>src/python/txtai/models/pooling/factory.py\<close> inspects its inputs
  dynamically (\<^verbatim>\<open>isinstance\<close>, truthiness, \<^verbatim>\<open>==\<close>), so the values it may meet are
  one datatype: what \<^verbatim>\<open>json.load\<close> produces (null, booleans, numbers, strings, arrays,
  objects) and \<^verbatim>\<open>bytes\<close>, which a configuration's path may be. Dictionaries have
  string keys and are association lists read by \<open>map_of\<close>. A float is the real number
  it denotes: the code only tests floats for truth, which is "not equal to zero".
\<close>

datatype pyval =
    PNone
  | PBool bool
  | PInt int
  | PFloat real
  | PStr string
  | PBytes string
  | PList "pyval list"
  | PDict "(string \<times> pyval) list"

text \<open>Python's truth value testing (\<^verbatim>\<open>bool(v)\<close>, \<^verbatim>\<open>not v\<close>, \<^verbatim>\<open>a and b\<close>).\<close>

fun truthy :: "pyval \<Rightarrow> bool" where
  "truthy PNone = False"
| "truthy (PBool b) = b"
| "truthy (PInt i) = (i \<noteq> 0)"
| "truthy (PFloat r) = (r \<noteq> 0)"
| "truthy (PStr s) = (s \<noteq> [])"
| "truthy (PBytes s) = (s \<noteq> [])"
| "truthy (PList xs) = (xs \<noteq> [])"
| "truthy (PDict kvs) = (kvs \<noteq> [])"

text \<open>\<^verbatim>\<open>isinstance(v, bool)\<close>, \<^verbatim>\<open>isinstance(v, bytes)\<close> and \<^verbatim>\<open>isinstance(v, str)\<close>.\<close>

fun isinstance_bool :: "pyval \<Rightarrow> bool" where
  "isinstance_bool (PBool b) = True"
| "isinstance_bool v = False"

fun isinstance_bytes :: "pyval \<Rightarrow> bool" where
  "isinstance_bytes (PBytes s) = True"
| "isinstance_bytes v = False"

fun isinstance_str :: "pyval \<Rightarrow> bool" where
  "isinstance_str (PStr s) = True"
| "isinstance_str v = False"

text \<open>
  \<^verbatim>\<open>v == "literal"\<close>: among the values above only the very same string is equal to a
  string.
\<close>

definition eq_str :: "pyval \<Rightarrow> string \<Rightarrow> bool" where
  "eq_str v s = (v = PStr s)"

text \<open>The exceptions that can travel through the factory.\<close>

datatype error =
    EntryNotFoundError    \<comment> \<open>\<^verbatim>\<open>huggingface_hub.utils.EntryNotFoundError\<close> and its subclasses\<close>
  | KeyError string
  | TypeError
  | AttributeError
  | OtherError string     \<comment> \<open>anything else the hub client, \<^verbatim>\<open>open\<close> or \<^verbatim>\<open>json.load\<close> raises\<close>

text \<open>\<^verbatim>\<open>d.get(k)\<close> on a dictionary: the value, or \<^verbatim>\<open>None\<close> for a missing key.\<close>

definition dict_get :: "(string \<times> pyval) list \<Rightarrow> string \<Rightarrow> pyval" where
  "dict_get d k = (case map_of d k of None \<Rightarrow> PNone | Some v \<Rightarrow> v)"

text \<open>
  \<^verbatim>\<open>v[k]\<close> with a string key: a dictionary raises \<^verbatim>\<open>KeyError\<close> for a missing key,
  every other value raises \<^verbatim>\<open>TypeError\<close> (not subscriptable, or indices must be
  integers).
\<close>

fun subscript :: "pyval \<Rightarrow> string \<Rightarrow> error + pyval" where
  "subscript (PDict d) k = (case map_of d k of None \<Rightarrow> Inl (KeyError k) | Some v \<Rightarrow> Inr v)"
| "subscript v k = Inl TypeError"

text \<open>
  \<^verbatim>\<open>v.get(k)\<close> as an attribute call: only a dictionary has the method, every other
  value raises \<^verbatim>\<open>AttributeError\<close>.
\<close>

fun call_get :: "pyval \<Rightarrow> string \<Rightarrow> error + pyval" where
  "call_get (PDict d) k = Inr (dict_get d k)"
| "call_get v k = Inl AttributeError"

section \<open>The environment\<close>

text \<open>
  What the factory asks of the outside world: the two tests of \<^verbatim>\<open>os.path\<close>, the hub
  client's \<^verbatim>\<open>hf_hub_download(repo_id, filename)\<close>, which returns the local file name
  of the downloaded artifact or raises, and reading that file as JSON
  (\<^verbatim>\<open>open\<close> followed by \<^verbatim>\<open>json.load\<close>). The answers are fixed during one call of
  \<^verbatim>\<open>create\<close>.
\<close>

record world =
  isfile :: "string \<Rightarrow> bool"
  exists :: "string \<Rightarrow> bool"
  hf_hub_download :: "pyval \<Rightarrow> string \<Rightarrow> error + string"
  json_load :: "string \<Rightarrow> error + pyval"

text \<open>Every call into the environment is recorded, in the order the code makes it.\<close>

datatype event =
    IsFile string
  | Exists string
  | HubDownload pyval string
  | JsonLoad string

type_synonym 'a io = "event list \<times> (error + 'a)"

section \<open>The strategies\<close>

text \<open>
  The classes \<^verbatim>\<open>Pooling\<close>, \<^verbatim>\<open>ClsPooling\<close> and \<^verbatim>\<open>MeanPooling\<close> live in sibling
  modules; the factory only chooses one and hands it
  \<^verbatim>\<open>(path, device, tokenizer, maxlength, modelargs)\<close>. A strategy is therefore the
  chosen class together with the five arguments.
\<close>

datatype strategy =
    Pooling (s_path: pyval) (s_device: pyval) (s_tokenizer: pyval) (s_maxlength: pyval)
      (s_modelargs: pyval)
  | ClsPooling (s_path: pyval) (s_device: pyval) (s_tokenizer: pyval) (s_maxlength: pyval)
      (s_modelargs: pyval)
  | MeanPooling (s_path: pyval) (s_device: pyval) (s_tokenizer: pyval) (s_maxlength: pyval)
      (s_modelargs: pyval)

section \<open>PoolingFactory\<close>

text \<open>
  \<^verbatim>\<open>PoolingFactory.load(path, name)\<close>: download, then open and parse. An exception of
  the download leaves the file unread.
\<close>

definition load :: "world \<Rightarrow> pyval \<Rightarrow> string \<Rightarrow> pyval io" where
  "load w path name =
     (case hf_hub_download w path name of
        Inl e \<Rightarrow> ([HubDownload path name], Inl e)
      | Inr file \<Rightarrow> ([HubDownload path name, JsonLoad file], json_load w file))"

text \<open>
  The \<^verbatim>\<open>if\<close> of \<^verbatim>\<open>PoolingFactory.method\<close>:
  \<^verbatim>\<open>config["pooling_mode_cls_token"] and not config["pooling_mode_mean_tokens"]\<close>.
  The second subscript is evaluated only when the first value is true.
\<close>

definition cls_enabled :: "pyval \<Rightarrow> error + bool" where
  "cls_enabled config =
     (case subscript config ''pooling_mode_cls_token'' of
        Inl e \<Rightarrow> Inl e
      | Inr c \<Rightarrow>
          if truthy c then
            (case subscript config ''pooling_mode_mean_tokens'' of
               Inl e \<Rightarrow> Inl e
             | Inr m \<Rightarrow> Inr (\<not> truthy m))
          else Inr False)"

text \<open>
  \<^verbatim>\<open>PoolingFactory.method(path)\<close>, written \<open>method'\<close>. The body of the
  \<^verbatim>\<open>try\<close> loads the pooling configuration and tests the flags;
  \<^verbatim>\<open>except EntryNotFoundError: pass\<close> keeps the default, every other exception
  leaves the function.
\<close>

definition method' :: "world \<Rightarrow> pyval \<Rightarrow> pyval io" where
  "method' w path =
     (case load w path ''1_Pooling/config.json'' of
        (evs, Inl EntryNotFoundError) \<Rightarrow> (evs, Inr (PStr ''meanpooling''))
      | (evs, Inl e) \<Rightarrow> (evs, Inl e)
      | (evs, Inr config) \<Rightarrow>
          (case cls_enabled config of
             Inl EntryNotFoundError \<Rightarrow> (evs, Inr (PStr ''meanpooling''))
           | Inl e \<Rightarrow> (evs, Inl e)
           | Inr b \<Rightarrow> (evs, Inr (PStr (if b then ''clspooling'' else ''meanpooling'')))))"

text \<open>
  \<^verbatim>\<open>PoolingFactory.maxlength(path)\<close>: the default is \<^verbatim>\<open>None\<close>; the \<^verbatim>\<open>try\<close> loads the
  sentence-transformers configuration and reads \<^verbatim>\<open>config.get("max_seq_length")\<close>.
\<close>

definition maxlength :: "world \<Rightarrow> pyval \<Rightarrow> pyval io" where
  "maxlength w path =
     (case load w path ''sentence_bert_config.json'' of
        (evs, Inl EntryNotFoundError) \<Rightarrow> (evs, Inr PNone)
      | (evs, Inl e) \<Rightarrow> (evs, Inl e)
      | (evs, Inr config) \<Rightarrow>
          (case call_get config ''max_seq_length'' of
             Inl EntryNotFoundError \<Rightarrow> (evs, Inr PNone)
           | Inl e \<Rightarrow> (evs, Inl e)
           | Inr v \<Rightarrow> (evs, Inr v)))"

text \<open>
  A configuration is a dictionary; \<^verbatim>\<open>config.get(x)\<close> unpacks it, an absent key reads
  as \<^verbatim>\<open>None\<close>.
\<close>

type_synonym config = "(string \<times> pyval) list"

text \<open>
  Line 39 of \<^verbatim>\<open>create\<close>:
  \<^verbatim>\<open>PoolingFactory.maxlength(path) if isinstance(maxlength, bool) and maxlength else maxlength\<close>.
\<close>

definition derive_maxlength :: "world \<Rightarrow> pyval \<Rightarrow> pyval \<Rightarrow> pyval io" where
  "derive_maxlength w path ml =
     (if isinstance_bool ml \<and> truthy ml then maxlength w path else ([], Inr ml))"

text \<open>
  The condition of line 42:
  \<^verbatim>\<open>isinstance(path, bytes) or (isinstance(path, str) and os.path.isfile(path)) or method == "pooling"\<close>,
  with the short-circuit evaluation of \<^verbatim>\<open>or\<close> and \<^verbatim>\<open>and\<close>: the file test runs only
  for a string.
\<close>

definition default_pooling :: "world \<Rightarrow> pyval \<Rightarrow> pyval \<Rightarrow> event list \<times> bool" where
  "default_pooling w path meth =
     (if isinstance_bytes path then ([], True)
      else
        (case path of
           PStr p \<Rightarrow>
             if isfile w p then ([IsFile p], True) else ([IsFile p], eq_str meth ''pooling'')
         | _ \<Rightarrow> ([], eq_str meth ''pooling'')))"

text \<open>
  The condition of line 46:
  \<^verbatim>\<open>(not method or method not in ("clspooling", "meanpooling")) and (isinstance(path, str) and not os.path.exists(path))\<close>.
  The existence test runs only when the left conjunct holds and the path is a string.
\<close>

definition unrecognized :: "pyval \<Rightarrow> bool" where
  "unrecognized meth =
     (\<not> truthy meth \<or> \<not> (eq_str meth ''clspooling'' \<or> eq_str meth ''meanpooling''))"

definition derive_method :: "world \<Rightarrow> pyval \<Rightarrow> pyval \<Rightarrow> event list \<times> bool" where
  "derive_method w path meth =
     (if unrecognized meth then
        (case path of
           PStr p \<Rightarrow> ([Exists p], \<not> exists w p)
         | _ \<Rightarrow> ([], False))
      else ([], False))"

text \<open>Lines 50 to 54: \<^verbatim>\<open>ClsPooling\<close> for \<^verbatim>\<open>"clspooling"\<close>, \<^verbatim>\<open>MeanPooling\<close> otherwise.\<close>

definition select :: "pyval \<Rightarrow> pyval \<Rightarrow> pyval \<Rightarrow> pyval \<Rightarrow> pyval \<Rightarrow> pyval \<Rightarrow> strategy" where
  "select meth path device tokenizer ml modelargs =
     (if eq_str meth ''clspooling'' then ClsPooling path device tokenizer ml modelargs
      else MeanPooling path device tokenizer ml modelargs)"

text \<open>\<^verbatim>\<open>PoolingFactory.create(config)\<close>.\<close>

definition create :: "world \<Rightarrow> config \<Rightarrow> strategy io" where
  "create w config =
     (let meth = dict_get config ''method'';
          path = dict_get config ''path'';
          device = dict_get config ''device'';
          tokenizer = dict_get config ''tokenizer'';
          ml0 = dict_get config ''maxlength'';
          modelargs = dict_get config ''modelargs''
      in
        case derive_maxlength w path ml0 of
          (e1, Inl err) \<Rightarrow> (e1, Inl err)
        | (e1, Inr ml) \<Rightarrow>
            (case default_pooling w path meth of
               (e2, True) \<Rightarrow> (e1 @ e2, Inr (Pooling path device tokenizer ml modelargs))
             | (e2, False) \<Rightarrow>
                 (case derive_method w path meth of
                    (e3, True) \<Rightarrow>
                      (case method' w path of
                         (e4, Inl err) \<Rightarrow> (e1 @ e2 @ e3 @ e4, Inl err)
                       | (e4, Inr meth') \<Rightarrow>
                           (e1 @ e2 @ e3 @ e4,
                            Inr (select meth' path device tokenizer ml modelargs)))
                  | (e3, False) \<Rightarrow>
                      (e1 @ e2 @ e3,
                       Inr (select meth path device tokenizer ml modelargs)))))"

text \<open>Reading a trace: the lookups of one artifact name, and all remote lookups.\<close>

fun is_lookup :: "string \<Rightarrow> event \<Rightarrow> bool" where
  "is_lookup name (HubDownload p n) = (n = name)"
| "is_lookup name e = False"

fun is_remote :: "event \<Rightarrow> bool" where
  "is_remote (HubDownload p n) = True"
| "is_remote e = False"

definition lookups :: "string \<Rightarrow> event list \<Rightarrow> event list" where
  "lookups name evs = filter (is_lookup name) evs"

text \<open>
  "Unset or a positive integer": \<^verbatim>\<open>None\<close>, or an \<^verbatim>\<open>int\<close> above zero. The booleans
  are not counted as integers here.
\<close>

fun unset_or_positive :: "pyval \<Rightarrow> bool" where
  "unset_or_positive PNone = True"
| "unset_or_positive (PInt i) = (0 < i)"
| "unset_or_positive v = False"

section \<open>Example environments\<close>

text \<open>
  A hub that serves the listed artifacts to every string identifier, answers
  \<^verbatim>\<open>EntryNotFoundError\<close> for any other name and rejects an identifier that is not a
  string; the listed paths exist locally as files.
\<close>

definition hub_world :: "string list \<Rightarrow> (string \<times> pyval) list \<Rightarrow> world" where
  "hub_world local artifacts =
     \<lparr> isfile = (\<lambda>p. List.member local p),
       exists = (\<lambda>p. List.member local p),
       hf_hub_download = (\<lambda>repo name.
         if isinstance_str repo then
           (case map_of artifacts name of
              None \<Rightarrow> Inl EntryNotFoundError
            | Some v \<Rightarrow> Inr name)
         else Inl (OtherError ''HFValidationError'')),
       json_load = (\<lambda>file.
         case map_of artifacts file of
           None \<Rightarrow> Inl (OtherError ''FileNotFoundError'')
         | Some v \<Rightarrow> Inr v) \<rparr>"

text \<open>
  No local files and no connection. For a string identifier the hub client then raises
  \<^verbatim>\<open>LocalEntryNotFoundError\<close>, a subclass of \<^verbatim>\<open>EntryNotFoundError\<close>; an identifier
  that is not a string is rejected before any request is made.
\<close>

definition offline_world :: world where
  "offline_world =
     \<lparr> isfile = (\<lambda>p. False),
       exists = (\<lambda>p. False),
       hf_hub_download = (\<lambda>repo name.
         if isinstance_str repo then Inl EntryNotFoundError
         else Inl (OtherError ''HFValidationError'')),
       json_load = (\<lambda>file. Inl (OtherError ''FileNotFoundError'')) \<rparr>"

section \<open>Traces and results of the stages\<close>

lemmas create_defs = create_def derive_maxlength_def default_pooling_def derive_method_def
  select_def unrecognized_def eq_str_def

lemma fst_load: "fst (load w path name) =
   (case hf_hub_download w path name of Inl e \<Rightarrow> [HubDownload path name]
    | Inr file \<Rightarrow> [HubDownload path name, JsonLoad file])"
  by (simp add: load_def split: sum.splits)

lemma fst_method: "fst (method' w path) = fst (load w path ''1_Pooling/config.json'')"
  by (cases "load w path ''1_Pooling/config.json''")
     (simp add: method'_def split: sum.splits error.splits)

lemma fst_maxlength: "fst (maxlength w path) = fst (load w path ''sentence_bert_config.json'')"
  by (cases "load w path ''sentence_bert_config.json''")
     (simp add: maxlength_def split: sum.splits error.splits)

lemma lookups_load: "lookups n (fst (load w path name)) = (if name = n then [HubDownload path name] else [])"
  by (simp add: fst_load lookups_def split: sum.splits)

lemma remote_load: "filter is_remote (fst (load w path name)) = [HubDownload path name]"
  by (simp add: fst_load split: sum.splits)

text \<open>The trace and the result of \<^verbatim>\<open>create\<close>, stage by stage.\<close>

lemma fst_create:
  "fst (create w config) =
     (let meth = dict_get config ''method''; path = dict_get config ''path'';
          ml0 = dict_get config ''maxlength'';
          e1 = fst (derive_maxlength w path ml0)
      in case snd (derive_maxlength w path ml0) of
           Inl err \<Rightarrow> e1
         | Inr ml \<Rightarrow>
             e1 @ fst (default_pooling w path meth) @
             (if snd (default_pooling w path meth) then []
              else fst (derive_method w path meth) @
                   (if snd (derive_method w path meth) then fst (method' w path) else [])))"
  by (simp add: create_def Let_def split: prod.splits sum.splits bool.splits)

lemma snd_create:
  "snd (create w config) =
     (let meth = dict_get config ''method''; path = dict_get config ''path'';
          device = dict_get config ''device''; tokenizer = dict_get config ''tokenizer'';
          ml0 = dict_get config ''maxlength''; modelargs = dict_get config ''modelargs''
      in case snd (derive_maxlength w path ml0) of
           Inl err \<Rightarrow> Inl err
         | Inr ml \<Rightarrow>
             if snd (default_pooling w path meth) then Inr (Pooling path device tokenizer ml modelargs)
             else if snd (derive_method w path meth) then
               (case snd (method' w path) of
                  Inl err \<Rightarrow> Inl err
                | Inr meth' \<Rightarrow> Inr (select meth' path device tokenizer ml modelargs))
             else Inr (select meth path device tokenizer ml modelargs))"
  by (simp add: create_def Let_def split: prod.splits sum.splits bool.splits)


lemma unrecognized_iff:
  "unrecognized meth \<longleftrightarrow> meth \<noteq> PStr ''clspooling'' \<and> meth \<noteq> PStr ''meanpooling''"
  by (auto simp: unrecognized_def eq_str_def)

lemma snd_derive_method:
  "snd (derive_method w path meth) \<longleftrightarrow>
     unrecognized meth \<and> (\<exists>p. path = PStr p \<and> \<not> exists w p)"
  by (simp add: derive_method_def split: pyval.splits)

lemma lookups_derive_maxlength:
  "lookups n (fst (derive_maxlength w path ml)) =
     (if ml = PBool True \<and> n = ''sentence_bert_config.json''
      then [HubDownload path ''sentence_bert_config.json''] else [])"
  by (cases ml) (auto simp: derive_maxlength_def fst_maxlength lookups_load, simp_all add: lookups_def)

lemma lookups_default_pooling: "lookups n (fst (default_pooling w path meth)) = []"
  by (simp add: default_pooling_def lookups_def split: pyval.splits)

lemma lookups_derive_method: "lookups n (fst (derive_method w path meth)) = []"
  by (simp add: derive_method_def lookups_def split: pyval.splits)

lemma lookups_append: "lookups n (xs @ ys) = lookups n xs @ lookups n ys"
  by (simp add: lookups_def)

lemma lookups_Nil: "lookups n [] = []"
  by (simp add: lookups_def)

lemma lookups_method:
  "lookups n (fst (method' w path)) =
     (if n = ''1_Pooling/config.json'' then [HubDownload path ''1_Pooling/config.json''] else [])"
  by (auto simp add: fst_method lookups_load)


lemma remote_default_pooling: "filter is_remote (fst (default_pooling w path meth)) = []"
  by (simp add: default_pooling_def split: pyval.splits)

lemma snd_load_not_found_method:
  "snd (load w path ''1_Pooling/config.json'') = Inl EntryNotFoundError \<Longrightarrow>
   snd (method' w path) = Inr (PStr ''meanpooling'')"
  by (cases "load w path ''1_Pooling/config.json''") (simp add: method'_def)

lemma snd_load_not_found_maxlength:
  "snd (load w path ''sentence_bert_config.json'') = Inl EntryNotFoundError \<Longrightarrow>
   snd (maxlength w path) = Inr PNone"
  by (cases "load w path ''sentence_bert_config.json''") (simp add: maxlength_def)

lemma cls_enabled_not_found: "cls_enabled config \<noteq> Inl EntryNotFoundError"
  by (cases config) (auto simp: cls_enabled_def split: option.splits)

lemma call_get_not_found: "call_get config k \<noteq> Inl EntryNotFoundError"
  by (cases config) auto

lemma method_not_found: "snd (method' w path) \<noteq> Inl EntryNotFoundError"
  using cls_enabled_not_found
  by (cases "load w path ''1_Pooling/config.json''")
     (auto simp: method'_def split: sum.splits error.splits)

lemma maxlength_not_found: "snd (maxlength w path) \<noteq> Inl EntryNotFoundError"
  using call_get_not_found
  by (cases "load w path ''sentence_bert_config.json''")
     (auto simp: maxlength_def split: sum.splits error.splits)

lemma snd_derive_maxlength:
  "snd (derive_maxlength w path ml) =
     (if ml = PBool True then snd (maxlength w path) else Inr ml)"
  by (cases ml) (auto simp: derive_maxlength_def)

lemma snd_default_pooling:
  "snd (default_pooling w path meth) \<longleftrightarrow>
     isinstance_bytes path \<or> (\<exists>p. path = PStr p \<and> isfile w p) \<or> meth = PStr ''pooling''"
  by (cases path) (auto simp: default_pooling_def eq_str_def)

lemma snd_method_dict:
  "snd (load w path ''1_Pooling/config.json'') = Inr config \<Longrightarrow>
   snd (method' w path) =
     (case cls_enabled config of
        Inl e \<Rightarrow> Inl e
      | Inr b \<Rightarrow> Inr (PStr (if b then ''clspooling'' else ''meanpooling'')))"
  using cls_enabled_not_found [of config]
  by (cases "load w path ''1_Pooling/config.json''")
     (auto simp: method'_def split: sum.splits error.splits)

lemma snd_maxlength_dict:
  "snd (load w path ''sentence_bert_config.json'') = Inr (PDict d) \<Longrightarrow>
   snd (maxlength w path) = Inr (dict_get d ''max_seq_length'')"
  by (cases "load w path ''sentence_bert_config.json''") (simp add: maxlength_def)

section \<open>The method resolver\<close>

text \<open>
  C1. When the pooling configuration loads and carries both boolean flags, the resolved
  method is \<^verbatim>\<open>clspooling\<close> exactly when the CLS flag is true and the mean flag is
  false, and \<^verbatim>\<open>meanpooling\<close> in every other combination; with both flags true it is
  \<^verbatim>\<open>meanpooling\<close>.
\<close>

theorem method_cls_iff_flags:
  assumes "snd (load w path ''1_Pooling/config.json'') = Inr (PDict d)"
      and "map_of d ''pooling_mode_cls_token'' = Some (PBool cls)"
      and "map_of d ''pooling_mode_mean_tokens'' = Some (PBool mean)"
  shows "snd (method' w path) =
           Inr (PStr (if cls \<and> \<not> mean then ''clspooling'' else ''meanpooling''))"
  using assms by (simp add: snd_method_dict cls_enabled_def)

text \<open>C1 at a hub whose pooling configuration has both flags true: the method is mean.\<close>

theorem method_cls_iff_flags_witness:
  "snd (load (hub_world [] [(''1_Pooling/config.json'',
        PDict [(''pooling_mode_cls_token'', PBool True),
               (''pooling_mode_mean_tokens'', PBool True)])])
      (PStr ''org/model'') ''1_Pooling/config.json'') =
     Inr (PDict [(''pooling_mode_cls_token'', PBool True),
                 (''pooling_mode_mean_tokens'', PBool True)]) \<and>
   map_of [(''pooling_mode_cls_token'', PBool True),
           (''pooling_mode_mean_tokens'', PBool True)] ''pooling_mode_cls_token'' =
     Some (PBool True) \<and>
   map_of [(''pooling_mode_cls_token'', PBool True),
           (''pooling_mode_mean_tokens'', PBool True)] ''pooling_mode_mean_tokens'' =
     Some (PBool True) \<and>
   snd (method' (hub_world [] [(''1_Pooling/config.json'',
        PDict [(''pooling_mode_cls_token'', PBool True),
               (''pooling_mode_mean_tokens'', PBool True)])])
      (PStr ''org/model'')) = Inr (PStr ''meanpooling'')"
proof -
  let ?d = "[(''pooling_mode_cls_token'', PBool True),
             (''pooling_mode_mean_tokens'', PBool True)]"
  let ?w = "hub_world [] [(''1_Pooling/config.json'', PDict ?d)]"
  have h1: "snd (load ?w (PStr ''org/model'') ''1_Pooling/config.json'') = Inr (PDict ?d)"
    by (simp add: load_def hub_world_def)
  have h2: "map_of ?d ''pooling_mode_cls_token'' = Some (PBool True)"
    by simp
  have h3: "map_of ?d ''pooling_mode_mean_tokens'' = Some (PBool True)"
    by simp
  from method_cls_iff_flags [OF h1 h2 h3] h1 h2 h3 show ?thesis
    by simp
qed

section \<open>When create consults the hub\<close>

text \<open>
  C2. When line 39 has returned and the test of line 42 is false, \<^verbatim>\<open>create\<close> looks the
  pooling configuration up exactly when the configured method is unset or is neither
  \<^verbatim>\<open>clspooling\<close> nor \<^verbatim>\<open>meanpooling\<close>, and the path is a string that does not exist
  locally; it then looks it up once, and otherwise not at all.
\<close>

theorem method_lookup_iff:
  assumes "snd (derive_maxlength w (dict_get config ''path'') (dict_get config ''maxlength'')) = Inr ml"
      and "\<not> snd (default_pooling w (dict_get config ''path'') (dict_get config ''method''))"
  shows "lookups ''1_Pooling/config.json'' (fst (create w config)) =
           (if (dict_get config ''method'' = PNone \<or>
                (dict_get config ''method'' \<noteq> PStr ''clspooling'' \<and>
                 dict_get config ''method'' \<noteq> PStr ''meanpooling'')) \<and>
               (\<exists>p. dict_get config ''path'' = PStr p \<and> \<not> exists w p)
            then [HubDownload (dict_get config ''path'') ''1_Pooling/config.json''] else [])"
proof -
  have u: "unrecognized (dict_get config ''method'') \<longleftrightarrow>
           (dict_get config ''method'' = PNone \<or>
                (dict_get config ''method'' \<noteq> PStr ''clspooling'' \<and>
                 dict_get config ''method'' \<noteq> PStr ''meanpooling''))"
    by (auto simp: unrecognized_iff)
  show ?thesis
    using assms
    by (simp add: fst_create Let_def lookups_append lookups_derive_maxlength
        lookups_default_pooling lookups_derive_method lookups_method lookups_Nil
        snd_derive_method u)
qed

text \<open>C2 for a remote identifier with no method configured: one lookup.\<close>

theorem method_lookup_iff_witness:
  "snd (derive_maxlength (hub_world [] []) (dict_get [(''path'', PStr ''org/model'')] ''path'')
         (dict_get [(''path'', PStr ''org/model'')] ''maxlength'')) = Inr PNone \<and>
   \<not> snd (default_pooling (hub_world [] []) (dict_get [(''path'', PStr ''org/model'')] ''path'')
         (dict_get [(''path'', PStr ''org/model'')] ''method'')) \<and>
   lookups ''1_Pooling/config.json''
     (fst (create (hub_world [] []) [(''path'', PStr ''org/model'')])) =
     [HubDownload (PStr ''org/model'') ''1_Pooling/config.json'']"
proof -
  let ?w = "hub_world [] []"
  let ?c = "[(''path'', PStr ''org/model'')]"
  have h1: "snd (derive_maxlength ?w (dict_get ?c ''path'') (dict_get ?c ''maxlength'')) = Inr PNone"
    by (simp add: derive_maxlength_def dict_get_def)
  have h2: "\<not> snd (default_pooling ?w (dict_get ?c ''path'') (dict_get ?c ''method''))"
    by (simp add: default_pooling_def dict_get_def hub_world_def eq_str_def)
  from method_lookup_iff [OF h1 h2] h1 h2 show ?thesis
    by (simp add: dict_get_def hub_world_def)
qed


lemma remote_derive_maxlength:
  "filter is_remote (fst (derive_maxlength w path ml)) =
     (if ml = PBool True then [HubDownload path ''sentence_bert_config.json''] else [])"
  by (cases ml) (auto simp: derive_maxlength_def fst_maxlength remote_load)

text \<open>
  C3 does not hold for every value of \<^verbatim>\<open>maxlength\<close>: line 39 runs before the test of
  line 42, so with \<^verbatim>\<open>maxlength\<close> true an existing local file is still looked up on
  the hub.
\<close>

theorem local_file_maxlength_true_counterexample:
  "dict_get [(''path'', PStr ''model.onnx''), (''maxlength'', PBool True)] ''path'' =
     PStr ''model.onnx'' \<and>
   isfile (hub_world [''model.onnx''] []) ''model.onnx'' \<and>
   filter is_remote
     (fst (create (hub_world [''model.onnx''] [])
        [(''path'', PStr ''model.onnx''), (''maxlength'', PBool True)])) =
     [HubDownload (PStr ''model.onnx'') ''sentence_bert_config.json'']"
  by (simp add: create_defs Let_def dict_get_def hub_world_def maxlength_def load_def)

text \<open>
  C3, amended. For a path that is a string naming an existing local file, \<^verbatim>\<open>create\<close>
  never looks up the pooling configuration; when \<^verbatim>\<open>maxlength\<close> is not the boolean
  true it makes no remote lookup at all and returns the raw \<^verbatim>\<open>Pooling\<close> strategy,
  whatever the method; and a strategy it returns is always the raw one.
\<close>

theorem local_file_no_lookup:
  assumes "dict_get config ''path'' = PStr p"
      and "isfile w p"
  shows "lookups ''1_Pooling/config.json'' (fst (create w config)) = [] \<and>
         (dict_get config ''maxlength'' \<noteq> PBool True \<longrightarrow>
            filter is_remote (fst (create w config)) = [] \<and>
            snd (create w config) =
              Inr (Pooling (PStr p) (dict_get config ''device'') (dict_get config ''tokenizer'')
                     (dict_get config ''maxlength'') (dict_get config ''modelargs''))) \<and>
         (\<forall>s. snd (create w config) = Inr s \<longrightarrow> is_Pooling s)"
proof -
  have raw: "snd (default_pooling w (PStr p) (dict_get config ''method''))"
    using assms(2) by (simp add: snd_default_pooling)
  have a: "lookups ''1_Pooling/config.json'' (fst (create w config)) = []"
    using assms(1) raw
    by (simp add: fst_create Let_def lookups_append lookups_derive_maxlength
        lookups_default_pooling lookups_Nil split: sum.splits)
  have b: "filter is_remote (fst (create w config)) = []"
    if "dict_get config ''maxlength'' \<noteq> PBool True"
    using assms(1) raw that
    by (simp add: fst_create Let_def remote_derive_maxlength remote_default_pooling
        split: sum.splits)
  have c: "snd (create w config) =
              Inr (Pooling (PStr p) (dict_get config ''device'') (dict_get config ''tokenizer'')
                     (dict_get config ''maxlength'') (dict_get config ''modelargs''))"
    if "dict_get config ''maxlength'' \<noteq> PBool True"
    using assms(1) raw that by (simp add: snd_create Let_def snd_derive_maxlength)
  have d: "is_Pooling s" if "snd (create w config) = Inr s" for s
    using assms(1) raw that by (auto simp: snd_create Let_def split: sum.splits)
  from a b c d show ?thesis by blast
qed

text \<open>C3, amended, for an existing file and no other option: only the file test runs.\<close>

theorem local_file_no_lookup_witness:
  "dict_get [(''path'', PStr ''model.onnx'')] ''path'' = PStr ''model.onnx'' \<and>
   isfile (hub_world [''model.onnx''] []) ''model.onnx'' \<and>
   dict_get [(''path'', PStr ''model.onnx'')] ''maxlength'' \<noteq> PBool True \<and>
   fst (create (hub_world [''model.onnx''] []) [(''path'', PStr ''model.onnx'')]) =
     [IsFile ''model.onnx''] \<and>
   snd (create (hub_world [''model.onnx''] []) [(''path'', PStr ''model.onnx'')]) =
     Inr (Pooling (PStr ''model.onnx'') PNone PNone PNone PNone)"
proof -
  let ?w = "hub_world [''model.onnx''] []"
  let ?c = "[(''path'', PStr ''model.onnx'')]"
  have h1: "dict_get ?c ''path'' = PStr ''model.onnx''"
    by (simp add: dict_get_def)
  have h2: "isfile ?w ''model.onnx''"
    by (simp add: hub_world_def)
  have h3: "dict_get ?c ''maxlength'' \<noteq> PBool True"
    by (simp add: dict_get_def)
  have t: "fst (create ?w ?c) = [IsFile ''model.onnx'']"
    by (simp add: create_defs Let_def dict_get_def hub_world_def)
  from local_file_no_lookup [OF h1 h2] h1 h2 h3 t show ?thesis
    by (simp add: dict_get_def)
qed

section \<open>Incomplete and absent artifacts\<close>

text \<open>
  A tokenizer configuration that is an object without \<^verbatim>\<open>max_seq_length\<close> reads as
  unset, and a pooling configuration whose CLS flag is present and false resolves to
  \<^verbatim>\<open>meanpooling\<close> even without the mean flag: the second subscript is not evaluated.
\<close>

lemma maxlength_missing_field:
  "snd (load w path ''sentence_bert_config.json'') = Inr (PDict d) \<Longrightarrow>
   map_of d ''max_seq_length'' = None \<Longrightarrow>
   snd (maxlength w path) = Inr PNone"
  by (simp add: snd_maxlength_dict dict_get_def)

lemma method_cls_false_mean_missing:
  "snd (load w path ''1_Pooling/config.json'') = Inr (PDict d) \<Longrightarrow>
   map_of d ''pooling_mode_cls_token'' = Some c \<Longrightarrow> \<not> truthy c \<Longrightarrow>
   snd (method' w path) = Inr (PStr ''meanpooling'')"
  by (simp add: snd_method_dict cls_enabled_def)

text \<open>
  C4. The pooling configuration is read with \<^verbatim>\<open>config[...]\<close>, not with
  \<^verbatim>\<open>config.get(...)\<close> as the tokenizer configuration is: for a pooling configuration
  that loads as the empty object the method resolver raises \<^verbatim>\<open>KeyError\<close> instead of
  resolving to \<^verbatim>\<open>meanpooling\<close>, and \<^verbatim>\<open>create\<close> raises with it.
\<close>

theorem incomplete_pooling_config_raises:
  "snd (load (hub_world [] [(''1_Pooling/config.json'', PDict [])]) (PStr ''org/model'')
         ''1_Pooling/config.json'') = Inr (PDict []) \<and>
   snd (method' (hub_world [] [(''1_Pooling/config.json'', PDict [])]) (PStr ''org/model'')) =
     Inl (KeyError ''pooling_mode_cls_token'') \<and>
   snd (create (hub_world [] [(''1_Pooling/config.json'', PDict [])])
          [(''path'', PStr ''org/model'')]) =
     Inl (KeyError ''pooling_mode_cls_token'')"
  by (simp add: create_defs Let_def dict_get_def method'_def load_def hub_world_def
      cls_enabled_def)

text \<open>
  C5. When the artifact does not exist (\<^verbatim>\<open>EntryNotFoundError\<close>), the method resolver
  returns \<^verbatim>\<open>meanpooling\<close> and the length resolver returns \<^verbatim>\<open>None\<close>; and
  \<^verbatim>\<open>create\<close> never raises \<^verbatim>\<open>EntryNotFoundError\<close>.
\<close>

theorem not_found_absorbed:
  "(snd (load w path ''1_Pooling/config.json'') = Inl EntryNotFoundError \<longrightarrow>
      snd (method' w path) = Inr (PStr ''meanpooling'')) \<and>
   (snd (load w path ''sentence_bert_config.json'') = Inl EntryNotFoundError \<longrightarrow>
      snd (maxlength w path) = Inr PNone) \<and>
   snd (create w config) \<noteq> Inl EntryNotFoundError"
proof -
  have "snd (create w config) \<noteq> Inl EntryNotFoundError"
    using method_not_found [of w "dict_get config ''path''"]
      maxlength_not_found [of w "dict_get config ''path''"]
    by (auto simp: snd_create Let_def snd_derive_maxlength split: sum.splits if_splits)
  then show ?thesis
    by (simp add: snd_load_not_found_method snd_load_not_found_maxlength)
qed

text \<open>C5 at a hub with no artifacts.\<close>

theorem not_found_absorbed_witness:
  "snd (load (hub_world [] []) (PStr ''org/model'') ''1_Pooling/config.json'') =
     Inl EntryNotFoundError \<and>
   snd (method' (hub_world [] []) (PStr ''org/model'')) = Inr (PStr ''meanpooling'') \<and>
   snd (load (hub_world [] []) (PStr ''org/model'') ''sentence_bert_config.json'') =
     Inl EntryNotFoundError \<and>
   snd (maxlength (hub_world [] []) (PStr ''org/model'')) = Inr PNone \<and>
   snd (create (hub_world [] []) [(''path'', PStr ''org/model''), (''maxlength'', PBool True)]) \<noteq>
     Inl EntryNotFoundError"
proof -
  have h1: "snd (load (hub_world [] []) (PStr ''org/model'') ''1_Pooling/config.json'') =
     Inl EntryNotFoundError"
    by (simp add: load_def hub_world_def)
  have h2: "snd (load (hub_world [] []) (PStr ''org/model'') ''sentence_bert_config.json'') =
     Inl EntryNotFoundError"
    by (simp add: load_def hub_world_def)
  from not_found_absorbed [of "hub_world [] []" "PStr ''org/model''"
      "[(''path'', PStr ''org/model''), (''maxlength'', PBool True)]"] h1 h2
  show ?thesis by simp
qed


section \<open>The maximum length\<close>

text \<open>
  C6. \<^verbatim>\<open>create\<close> looks up the tokenizer configuration if and only if the configured
  \<^verbatim>\<open>maxlength\<close> is the boolean true; every other value is the \<^verbatim>\<open>maxlength\<close> of the
  strategy \<^verbatim>\<open>create\<close> returns.
\<close>

theorem maxlength_lookup_iff_true:
  "(lookups ''sentence_bert_config.json'' (fst (create w config)) \<noteq> [] \<longleftrightarrow>
      dict_get config ''maxlength'' = PBool True) \<and>
   (dict_get config ''maxlength'' \<noteq> PBool True \<longrightarrow>
      (\<forall>s. snd (create w config) = Inr s \<longrightarrow> s_maxlength s = dict_get config ''maxlength''))"
proof -
  have a: "lookups ''sentence_bert_config.json'' (fst (create w config)) \<noteq> [] \<longleftrightarrow>
      dict_get config ''maxlength'' = PBool True"
    by (simp add: fst_create Let_def lookups_append lookups_derive_maxlength
        lookups_default_pooling lookups_derive_method lookups_method lookups_Nil
        split: sum.splits)
  have b: "s_maxlength s = dict_get config ''maxlength''"
    if "dict_get config ''maxlength'' \<noteq> PBool True" "snd (create w config) = Inr s" for s
    using that
    by (auto simp: snd_create Let_def snd_derive_maxlength select_def
        split: sum.splits if_splits)
  from a b show ?thesis by blast
qed

text \<open>C6 with \<^verbatim>\<open>maxlength\<close> true (one lookup) and with \<^verbatim>\<open>maxlength\<close> 64 (handed over).\<close>

theorem maxlength_lookup_iff_true_witness:
  "lookups ''sentence_bert_config.json''
     (fst (create (hub_world [] [(''sentence_bert_config.json'', PDict [(''max_seq_length'', PInt 128)])])
        [(''path'', PStr ''org/model''), (''maxlength'', PBool True)])) =
     [HubDownload (PStr ''org/model'') ''sentence_bert_config.json''] \<and>
   dict_get [(''path'', PStr ''org/model''), (''maxlength'', PBool True)] ''maxlength'' = PBool True \<and>
   dict_get [(''path'', PStr ''org/model''), (''maxlength'', PInt 64)] ''maxlength'' \<noteq> PBool True \<and>
   snd (create (hub_world [] [(''sentence_bert_config.json'', PDict [(''max_seq_length'', PInt 128)])])
        [(''path'', PStr ''org/model''), (''maxlength'', PInt 64)]) =
     Inr (MeanPooling (PStr ''org/model'') PNone PNone (PInt 64) PNone) \<and>
   s_maxlength (MeanPooling (PStr ''org/model'') PNone PNone (PInt 64) PNone) =
     dict_get [(''path'', PStr ''org/model''), (''maxlength'', PInt 64)] ''maxlength''"
proof -
  let ?w = "hub_world [] [(''sentence_bert_config.json'', PDict [(''max_seq_length'', PInt 128)])]"
  let ?c1 = "[(''path'', PStr ''org/model''), (''maxlength'', PBool True)]"
  let ?c2 = "[(''path'', PStr ''org/model''), (''maxlength'', PInt 64)]"
  have t: "lookups ''sentence_bert_config.json'' (fst (create ?w ?c1)) =
     [HubDownload (PStr ''org/model'') ''sentence_bert_config.json'']"
    by (simp add: create_defs Let_def dict_get_def hub_world_def maxlength_def method'_def
        load_def lookups_def)
  have r: "snd (create ?w ?c2) = Inr (MeanPooling (PStr ''org/model'') PNone PNone (PInt 64) PNone)"
    by (simp add: create_defs Let_def dict_get_def hub_world_def maxlength_def method'_def load_def)
  from maxlength_lookup_iff_true [of ?w ?c1] maxlength_lookup_iff_true [of ?w ?c2] t r
  show ?thesis
    by (simp add: dict_get_def)
qed

section \<open>Totality\<close>




text \<open>
  Without a connection the hub client's error is a kind of \<^verbatim>\<open>EntryNotFoundError\<close>
  and is absorbed: \<^verbatim>\<open>create\<close> returns the default.
\<close>

lemma create_offline:
  "create offline_world [(''path'', PStr ''org/model'')] =
     ([IsFile ''org/model'', Exists ''org/model'',
       HubDownload (PStr ''org/model'') ''1_Pooling/config.json''],
      Inr (MeanPooling (PStr ''org/model'') PNone PNone PNone PNone))"
  by (simp add: create_defs Let_def dict_get_def offline_world_def method'_def load_def)




text \<open>
  C8 does not hold as stated: a configured \<^verbatim>\<open>maxlength\<close> that is not the boolean true
  is handed over as it is, so \<^verbatim>\<open>False\<close> and \<^verbatim>\<open>0\<close> reach the strategy.
\<close>

theorem maxlength_false_counterexample:
  "snd (create (hub_world [] []) [(''path'', PStr ''org/model''), (''maxlength'', PBool False)]) =
     Inr (MeanPooling (PStr ''org/model'') PNone PNone (PBool False) PNone) \<and>
   \<not> unset_or_positive (PBool False) \<and>
   snd (create (hub_world [] []) [(''path'', PStr ''org/model''), (''maxlength'', PInt 0)]) =
     Inr (MeanPooling (PStr ''org/model'') PNone PNone (PInt 0) PNone) \<and>
   \<not> unset_or_positive (PInt 0)"
  by (simp add: create_defs Let_def dict_get_def hub_world_def method'_def load_def)

text \<open>
  C8, amended. The tokenizer configuration is looked up at most once per call. The
  \<^verbatim>\<open>maxlength\<close> of the returned strategy is the configured value unless that is the
  boolean true; then it is what the length resolver returned: unset for an absent
  artifact, the \<^verbatim>\<open>max_seq_length\<close> entry for an object. A configured value that is
  unset or a positive integer therefore stays so.
\<close>

theorem maxlength_handed_over:
  assumes "snd (create w config) = Inr s"
  shows "length (lookups ''sentence_bert_config.json'' (fst (create w config))) \<le> 1 \<and>
         (dict_get config ''maxlength'' \<noteq> PBool True \<longrightarrow>
            s_maxlength s = dict_get config ''maxlength'') \<and>
         (dict_get config ''maxlength'' = PBool True \<longrightarrow>
            snd (maxlength w (dict_get config ''path'')) = Inr (s_maxlength s)) \<and>
         (dict_get config ''maxlength'' = PBool True \<longrightarrow>
            snd (load w (dict_get config ''path'') ''sentence_bert_config.json'') =
              Inl EntryNotFoundError \<longrightarrow>
            s_maxlength s = PNone) \<and>
         (\<forall>d. dict_get config ''maxlength'' = PBool True \<longrightarrow>
            snd (load w (dict_get config ''path'') ''sentence_bert_config.json'') = Inr (PDict d) \<longrightarrow>
            s_maxlength s = dict_get d ''max_seq_length'') \<and>
         (unset_or_positive (dict_get config ''maxlength'') \<longrightarrow> unset_or_positive (s_maxlength s))"
proof -
  have a: "length (lookups ''sentence_bert_config.json'' (fst (create w config))) \<le> 1"
    by (simp add: fst_create Let_def lookups_append lookups_derive_maxlength
        lookups_default_pooling lookups_derive_method lookups_method lookups_Nil
        split: sum.splits)
  have b: "s_maxlength s = dict_get config ''maxlength''"
    if "dict_get config ''maxlength'' \<noteq> PBool True"
    using that assms
    by (auto simp: snd_create Let_def snd_derive_maxlength select_def
        split: sum.splits if_splits)
  have c: "snd (maxlength w (dict_get config ''path'')) = Inr (s_maxlength s)"
    if "dict_get config ''maxlength'' = PBool True"
    using that assms
    by (auto simp: snd_create Let_def snd_derive_maxlength select_def
        split: sum.splits if_splits)
  have d: "s_maxlength s = PNone"
    if "dict_get config ''maxlength'' = PBool True"
       "snd (load w (dict_get config ''path'') ''sentence_bert_config.json'') = Inl EntryNotFoundError"
    using c [OF that(1)] snd_load_not_found_maxlength [OF that(2)] by simp
  have e: "s_maxlength s = dict_get d ''max_seq_length''"
    if "dict_get config ''maxlength'' = PBool True"
       "snd (load w (dict_get config ''path'') ''sentence_bert_config.json'') = Inr (PDict d)" for d
    using c [OF that(1)] snd_maxlength_dict [OF that(2)] by simp
  have f: "unset_or_positive (s_maxlength s)" if "unset_or_positive (dict_get config ''maxlength'')"
  proof -
    from that have "dict_get config ''maxlength'' \<noteq> PBool True" by auto
    from b [OF this] that show ?thesis by simp
  qed
  from a b c d e f show ?thesis by blast
qed

text \<open>C8, amended, with a derived length of 128 and with a configured length of 64.\<close>

theorem maxlength_handed_over_witness:
  "snd (create (hub_world [] [(''sentence_bert_config.json'', PDict [(''max_seq_length'', PInt 128)])])
        [(''path'', PStr ''org/model''), (''maxlength'', PBool True)]) =
     Inr (MeanPooling (PStr ''org/model'') PNone PNone (PInt 128) PNone) \<and>
   length (lookups ''sentence_bert_config.json''
     (fst (create (hub_world [] [(''sentence_bert_config.json'', PDict [(''max_seq_length'', PInt 128)])])
        [(''path'', PStr ''org/model''), (''maxlength'', PBool True)]))) \<le> 1 \<and>
   snd (create (hub_world [] []) [(''path'', PStr ''org/model''), (''maxlength'', PInt 64)]) =
     Inr (MeanPooling (PStr ''org/model'') PNone PNone (PInt 64) PNone) \<and>
   unset_or_positive (dict_get [(''path'', PStr ''org/model''), (''maxlength'', PInt 64)] ''maxlength'') \<and>
   unset_or_positive (s_maxlength (MeanPooling (PStr ''org/model'') PNone PNone (PInt 64) PNone))"
proof -
  let ?w = "hub_world [] [(''sentence_bert_config.json'', PDict [(''max_seq_length'', PInt 128)])]"
  let ?c1 = "[(''path'', PStr ''org/model''), (''maxlength'', PBool True)]"
  let ?c2 = "[(''path'', PStr ''org/model''), (''maxlength'', PInt 64)]"
  have r1: "snd (create ?w ?c1) = Inr (MeanPooling (PStr ''org/model'') PNone PNone (PInt 128) PNone)"
    by (simp add: create_defs Let_def dict_get_def hub_world_def maxlength_def method'_def load_def)
  have r2: "snd (create (hub_world [] []) ?c2) =
      Inr (MeanPooling (PStr ''org/model'') PNone PNone (PInt 64) PNone)"
    by (simp add: create_defs Let_def dict_get_def hub_world_def maxlength_def method'_def load_def)
  have p: "unset_or_positive (dict_get ?c2 ''maxlength'')"
    by (simp add: dict_get_def)
  from maxlength_handed_over [OF r1] maxlength_handed_over [OF r2] r1 r2 p show ?thesis
    by simp
qed

section \<open>Determinism\<close>

lemma snd_default_pooling_cong:
  assumes "\<forall>p. path = PStr p \<longrightarrow> isfile w1 p = isfile w2 p"
  shows "snd (default_pooling w1 path meth) = snd (default_pooling w2 path meth)"
  using assms by (auto simp: snd_default_pooling)

lemma snd_derive_method_cong:
  assumes "\<forall>p. path = PStr p \<longrightarrow> exists w1 p = exists w2 p"
  shows "snd (derive_method w1 path meth) = snd (derive_method w2 path meth)"
  using assms by (auto simp: snd_derive_method)

lemma snd_method_cong:
  assumes "snd (load w1 path ''1_Pooling/config.json'') = snd (load w2 path ''1_Pooling/config.json'')"
  shows "snd (method' w1 path) = snd (method' w2 path)"
  using assms
  by (cases "load w1 path ''1_Pooling/config.json''"; cases "load w2 path ''1_Pooling/config.json''")
     (simp add: method'_def split: sum.splits error.splits)

lemma snd_maxlength_cong:
  assumes "snd (load w1 path ''sentence_bert_config.json'') = snd (load w2 path ''sentence_bert_config.json'')"
  shows "snd (maxlength w1 path) = snd (maxlength w2 path)"
  using assms
  by (cases "load w1 path ''sentence_bert_config.json''"; cases "load w2 path ''sentence_bert_config.json''")
     (simp add: maxlength_def split: sum.splits error.splits)

text \<open>
  C9 does not hold as stated: lines 42 and 46 also ask the local file system. With the
  same configuration and the same results of every config lookup, an identifier that
  is no local file gives \<^verbatim>\<open>MeanPooling\<close>, and the same identifier existing as a local
  file gives the raw \<^verbatim>\<open>Pooling\<close>.
\<close>

theorem create_local_state_counterexample:
  "snd (load (hub_world [] []) (PStr ''org/model'') ''sentence_bert_config.json'') =
   snd (load (hub_world [''org/model''] []) (PStr ''org/model'') ''sentence_bert_config.json'') \<and>
   snd (load (hub_world [] []) (PStr ''org/model'') ''1_Pooling/config.json'') =
   snd (load (hub_world [''org/model''] []) (PStr ''org/model'') ''1_Pooling/config.json'') \<and>
   snd (create (hub_world [] []) [(''path'', PStr ''org/model'')]) =
     Inr (MeanPooling (PStr ''org/model'') PNone PNone PNone PNone) \<and>
   snd (create (hub_world [''org/model''] []) [(''path'', PStr ''org/model'')]) =
     Inr (Pooling (PStr ''org/model'') PNone PNone PNone PNone) \<and>
   snd (create (hub_world [] []) [(''path'', PStr ''org/model'')]) \<noteq>
   snd (create (hub_world [''org/model''] []) [(''path'', PStr ''org/model'')])"
  by (simp add: create_defs Let_def dict_get_def hub_world_def method'_def load_def)

text \<open>
  C9, amended. Two calls of \<^verbatim>\<open>create\<close> with the same configuration, in environments
  that answer alike for the path (the two file tests as well as the two config lookups),
  return the same result: the same strategy class with the same arguments,
  \<^verbatim>\<open>maxlength\<close> among them, or the same exception.
\<close>

theorem create_deterministic:
  assumes "\<forall>p. dict_get config ''path'' = PStr p \<longrightarrow>
             isfile w1 p = isfile w2 p \<and> exists w1 p = exists w2 p"
      and "snd (load w1 (dict_get config ''path'') ''sentence_bert_config.json'') =
           snd (load w2 (dict_get config ''path'') ''sentence_bert_config.json'')"
      and "snd (load w1 (dict_get config ''path'') ''1_Pooling/config.json'') =
           snd (load w2 (dict_get config ''path'') ''1_Pooling/config.json'')"
  shows "snd (create w1 config) = snd (create w2 config)"
proof -
  let ?path = "dict_get config ''path''"
  let ?meth = "dict_get config ''method''"
  have 1: "snd (derive_maxlength w1 ?path ml) = snd (derive_maxlength w2 ?path ml)" for ml
    by (simp add: snd_derive_maxlength snd_maxlength_cong [OF assms(2)])
  have 2: "snd (default_pooling w1 ?path ?meth) = snd (default_pooling w2 ?path ?meth)"
    using assms(1) by (intro snd_default_pooling_cong) simp
  have 3: "snd (derive_method w1 ?path ?meth) = snd (derive_method w2 ?path ?meth)"
    using assms(1) by (intro snd_derive_method_cong) simp
  have 4: "snd (method' w1 ?path) = snd (method' w2 ?path)"
    by (rule snd_method_cong [OF assms(3)])
  show ?thesis
    unfolding snd_create Let_def 1 2 3 4 by (rule refl)
qed

text \<open>
  C9, amended, for two environments that differ elsewhere on the file system.
\<close>

theorem create_deterministic_witness:
  "isfile (hub_world [] [(''1_Pooling/config.json'',
        PDict [(''pooling_mode_cls_token'', PBool True),
               (''pooling_mode_mean_tokens'', PBool False)])]) ''org/model'' =
   isfile (hub_world [''model.onnx''] [(''1_Pooling/config.json'',
        PDict [(''pooling_mode_cls_token'', PBool True),
               (''pooling_mode_mean_tokens'', PBool False)])]) ''org/model'' \<and>
   isfile (hub_world [] [(''1_Pooling/config.json'',
        PDict [(''pooling_mode_cls_token'', PBool True),
               (''pooling_mode_mean_tokens'', PBool False)])]) ''model.onnx'' \<noteq>
   isfile (hub_world [''model.onnx''] [(''1_Pooling/config.json'',
        PDict [(''pooling_mode_cls_token'', PBool True),
               (''pooling_mode_mean_tokens'', PBool False)])]) ''model.onnx'' \<and>
   snd (create (hub_world [] [(''1_Pooling/config.json'',
        PDict [(''pooling_mode_cls_token'', PBool True),
               (''pooling_mode_mean_tokens'', PBool False)])])
      [(''path'', PStr ''org/model'')]) =
   snd (create (hub_world [''model.onnx''] [(''1_Pooling/config.json'',
        PDict [(''pooling_mode_cls_token'', PBool True),
               (''pooling_mode_mean_tokens'', PBool False)])])
      [(''path'', PStr ''org/model'')]) \<and>
   snd (create (hub_world [] [(''1_Pooling/config.json'',
        PDict [(''pooling_mode_cls_token'', PBool True),
               (''pooling_mode_mean_tokens'', PBool False)])])
      [(''path'', PStr ''org/model'')]) =
     Inr (ClsPooling (PStr ''org/model'') PNone PNone PNone PNone)"
proof -
  let ?a = "[(''1_Pooling/config.json'',
        PDict [(''pooling_mode_cls_token'', PBool True),
               (''pooling_mode_mean_tokens'', PBool False)])]"
  let ?w1 = "hub_world [] ?a"
  let ?w2 = "hub_world [''model.onnx''] ?a"
  let ?c = "[(''path'', PStr ''org/model'')]"
  have h1: "\<forall>p. dict_get ?c ''path'' = PStr p \<longrightarrow>
             isfile ?w1 p = isfile ?w2 p \<and> exists ?w1 p = exists ?w2 p"
    by (simp add: dict_get_def hub_world_def)
  have h2: "snd (load ?w1 (dict_get ?c ''path'') ''sentence_bert_config.json'') =
            snd (load ?w2 (dict_get ?c ''path'') ''sentence_bert_config.json'')"
    by (simp add: load_def hub_world_def dict_get_def)
  have h3: "snd (load ?w1 (dict_get ?c ''path'') ''1_Pooling/config.json'') =
            snd (load ?w2 (dict_get ?c ''path'') ''1_Pooling/config.json'')"
    by (simp add: load_def hub_world_def dict_get_def)
  have r: "snd (create ?w1 ?c) = Inr (ClsPooling (PStr ''org/model'') PNone PNone PNone PNone)"
    by (simp add: create_defs Let_def dict_get_def hub_world_def method'_def load_def
        cls_enabled_def)
  from create_deterministic [OF h1 h2 h3] r show ?thesis
    by (simp add: hub_world_def)
qed

section \<open>A path that is neither a string nor bytes\<close>

text \<open>
  C10 does not hold as stated: with \<^verbatim>\<open>maxlength\<close> true, line 39 calls the hub with
  the path, here \<^verbatim>\<open>None\<close>, before anything else, and the hub client's exception
  leaves \<^verbatim>\<open>create\<close>.
\<close>

theorem no_path_maxlength_true_counterexample:
  "\<not> isinstance_str (dict_get [(''maxlength'', PBool True)] ''path'') \<and>
   \<not> isinstance_bytes (dict_get [(''maxlength'', PBool True)] ''path'') \<and>
   dict_get [(''maxlength'', PBool True)] ''method'' \<noteq> PStr ''pooling'' \<and>
   create (hub_world [] []) [(''maxlength'', PBool True)] =
     ([HubDownload PNone ''sentence_bert_config.json''], Inl (OtherError ''HFValidationError''))"
  by (simp add: create_defs Let_def dict_get_def hub_world_def maxlength_def load_def)

text \<open>
  C10, amended. When the path is neither a string nor bytes, the method is not
  \<^verbatim>\<open>pooling\<close> and \<^verbatim>\<open>maxlength\<close> is not the boolean true, \<^verbatim>\<open>create\<close> makes no
  file-system test and no remote lookup, and returns \<^verbatim>\<open>ClsPooling\<close> if the configured
  method is \<^verbatim>\<open>clspooling\<close> and \<^verbatim>\<open>MeanPooling\<close> otherwise.
\<close>

theorem no_path_no_effects:
  assumes "\<not> isinstance_str (dict_get config ''path'')"
      and "\<not> isinstance_bytes (dict_get config ''path'')"
      and "dict_get config ''method'' \<noteq> PStr ''pooling''"
      and "dict_get config ''maxlength'' \<noteq> PBool True"
  shows "create w config =
           ([], Inr (if dict_get config ''method'' = PStr ''clspooling''
                     then ClsPooling (dict_get config ''path'') (dict_get config ''device'')
                            (dict_get config ''tokenizer'') (dict_get config ''maxlength'')
                            (dict_get config ''modelargs'')
                     else MeanPooling (dict_get config ''path'') (dict_get config ''device'')
                            (dict_get config ''tokenizer'') (dict_get config ''maxlength'')
                            (dict_get config ''modelargs'')))"
proof -
  let ?path = "dict_get config ''path''"
  let ?meth = "dict_get config ''method''"
  have 1: "derive_maxlength w ?path (dict_get config ''maxlength'') = ([], Inr (dict_get config ''maxlength''))"
    using assms(4) by (cases "dict_get config ''maxlength''") (auto simp: derive_maxlength_def)
  have 2: "default_pooling w ?path ?meth = ([], False)"
    using assms(1,2,3) by (cases ?path) (auto simp: default_pooling_def eq_str_def)
  have 3: "derive_method w ?path ?meth = ([], False)"
    using assms(1) by (cases ?path) (auto simp: derive_method_def)
  show ?thesis
    by (simp add: create_def Let_def 1 2 3 select_def eq_str_def)
qed

text \<open>C10, amended, with no path and \<^verbatim>\<open>clspooling\<close> configured, hub unreachable.\<close>

theorem no_path_no_effects_witness:
  "\<not> isinstance_str (dict_get [(''method'', PStr ''clspooling'')] ''path'') \<and>
   \<not> isinstance_bytes (dict_get [(''method'', PStr ''clspooling'')] ''path'') \<and>
   dict_get [(''method'', PStr ''clspooling'')] ''method'' \<noteq> PStr ''pooling'' \<and>
   dict_get [(''method'', PStr ''clspooling'')] ''maxlength'' \<noteq> PBool True \<and>
   create offline_world [(''method'', PStr ''clspooling'')] =
     ([], Inr (ClsPooling PNone PNone PNone PNone PNone))"
proof -
  let ?c = "[(''method'', PStr ''clspooling'')]"
  have h1: "\<not> isinstance_str (dict_get ?c ''path'')" by (simp add: dict_get_def)
  have h2: "\<not> isinstance_bytes (dict_get ?c ''path'')" by (simp add: dict_get_def)
  have h3: "dict_get ?c ''method'' \<noteq> PStr ''pooling''" by (simp add: dict_get_def)
  have h4: "dict_get ?c ''maxlength'' \<noteq> PBool True" by (simp add: dict_get_def)
  from no_path_no_effects [OF h1 h2 h3 h4, of offline_world] h1 h2 h3 h4 show ?thesis
    by (simp add: dict_get_def)
qed

end
